theory Spec2Isabelle
  imports Complex_Main "HOL-Library.AList"
begin

section \<open>Python values, errors and the library the program calls\<close>

text \<open>
  The field annotations of the two dataclasses of \<^verbatim>\<open>Timesheet.py\<close> are not enforced by
  Python: \<^verbatim>\<open>from_dict\<close> stores whatever value \<^verbatim>\<open>json.load\<close> found under a key. The
  fields are therefore Python values. A dictionary is the list of its items in insertion
  order (the keys of a dictionary are distinct); \<^verbatim>\<open>json.load\<close> produces every
  constructor but \<open>PTuple\<close>. Numbers are never inspected by the program.
\<close>

datatype pyval =
    PNone
  | PBool bool
  | PNum rat
  | PStr string
  | PList "pyval list"
  | PTuple "pyval list"
  | PDict "(string \<times> pyval) list"

text \<open>
  Exceptions are values. The two warning boxes of \<^verbatim>\<open>_toggle_timer\<close> ("Please stop the
  current timer first." and "You can only start today's timer.") are the rejections the
  specification calls \<open>TimerBusyError\<close> and \<open>WrongDayError\<close>; \<open>OSError\<close> stands for
  whatever \<^verbatim>\<open>open\<close> or \<^verbatim>\<open>json.load\<close> raise on a file that does not hold JSON.
\<close>

datatype error =
    TypeError | ValueError | KeyError | AttributeError | IndexError | OSError
  | TimerBusyError | WrongDayError

text \<open>
  A \<^verbatim>\<open>datetime\<close> without time zone is the number of microseconds since
  0001-01-01T00:00:00, which is a Monday; a \<^verbatim>\<open>timedelta\<close> is a number of microseconds.
  What the program takes from the Python library is a parameter of the model:
  the two ISO-8601 conversions of \<^verbatim>\<open>datetime\<close> (\<open>None\<close> is the \<^verbatim>\<open>ValueError\<close> of
  \<^verbatim>\<open>fromisoformat\<close>), and floating-point arithmetic on a type \<open>'f\<close> of floats:
  \<open>hours td\<close> is \<^verbatim>\<open>td.total_seconds() / 3600.0\<close>, \<open>fzero\<close> is \<^verbatim>\<open>0.0\<close>, \<open>fadd\<close> is
  \<^verbatim>\<open>+\<close> and \<open>pysum\<close> is the builtin \<^verbatim>\<open>sum\<close>. No law of arithmetic is assumed of them.
\<close>

record 'f pylib =
  fromisoformat :: "string \<Rightarrow> int option"
  isoformat :: "int \<Rightarrow> string"
  hours :: "int \<Rightarrow> 'f"
  fzero :: 'f
  fadd :: "'f \<Rightarrow> 'f \<Rightarrow> 'f"
  pysum :: "'f list \<Rightarrow> 'f"

definition weekday :: "int \<Rightarrow> nat" where
  \<comment> \<open>\<^verbatim>\<open>date.weekday()\<close>: Monday is 0, Sunday is 6.\<close>
  "weekday t = nat ((t div 86400000000) mod 7)"

text \<open>
  Iteration over a value, as a \<^verbatim>\<open>for\<close> loop, a comprehension or an unpacking does it:
  the items of a list or tuple, the characters of a string (one \<open>char\<close> each; the
  program only looks at their number), the keys of a dictionary.
\<close>

fun py_iter :: "pyval \<Rightarrow> error + pyval list" where
  "py_iter (PList xs) = Inr xs"
| "py_iter (PTuple xs) = Inr xs"
| "py_iter (PStr s) = Inr (map (\<lambda>c. PStr [c]) s)"
| "py_iter (PDict kvs) = Inr (map (\<lambda>kv. PStr (fst kv)) kvs)"
| "py_iter _ = Inl TypeError"

text \<open>\<^verbatim>\<open>d[k]\<close> and \<^verbatim>\<open>d.get(k, default)\<close> with a string \<open>k\<close>.\<close>

fun py_getitem :: "pyval \<Rightarrow> string \<Rightarrow> error + pyval" where
  "py_getitem (PDict kvs) k = (case map_of kvs k of None \<Rightarrow> Inl KeyError | Some v \<Rightarrow> Inr v)"
| "py_getitem _ k = Inl TypeError"

fun py_get :: "pyval \<Rightarrow> string \<Rightarrow> pyval \<Rightarrow> error + pyval" where
  "py_get (PDict kvs) k dflt = Inr (case map_of kvs k of None \<Rightarrow> dflt | Some v \<Rightarrow> v)"
| "py_get _ k dflt = Inl AttributeError"

text \<open>A comprehension \<^verbatim>\<open>[f(x) for x in xs]\<close>: the first exception ends it.\<close>

fun emap :: "('a \<Rightarrow> error + 'b) \<Rightarrow> 'a list \<Rightarrow> error + 'b list" where
  "emap f [] = Inr []"
| "emap f (x # xs) =
     (case f x of Inl e \<Rightarrow> Inl e
      | Inr y \<Rightarrow> (case emap f xs of Inl e \<Rightarrow> Inl e | Inr ys \<Rightarrow> Inr (y # ys)))"

text \<open>\<^verbatim>\<open>xs[i]\<close> with an index that is not negative.\<close>

definition py_index :: "'a list \<Rightarrow> nat \<Rightarrow> error + 'a" where
  "py_index xs i = (if i < length xs then Inr (xs ! i) else Inl IndexError)"

text \<open>
  \<^verbatim>\<open>json.load(json.dump(v))\<close>: JSON has arrays only, so a tuple comes back as a list.
\<close>

primrec json_dump :: "pyval \<Rightarrow> pyval" where
  "json_dump PNone = PNone"
| "json_dump (PBool b) = PBool b"
| "json_dump (PNum n) = PNum n"
| "json_dump (PStr s) = PStr s"
| "json_dump (PList xs) = PList (map json_dump xs)"
| "json_dump (PTuple xs) = PList (map json_dump xs)"
| "json_dump (PDict kvs) = PDict (map (map_prod id json_dump) kvs)"

section \<open>Data models\<close>

record DayData =
  sessions :: pyval
  notes_field :: pyval
  running_start :: "int option"

record TaskRowData =
  task :: pyval
  subtask :: pyval
  days :: "DayData list"

definition DayData_new :: DayData where
  \<comment> \<open>\<^verbatim>\<open>DayData()\<close>\<close>
  "DayData_new = \<lparr>sessions = PList [], notes_field = PStr [], running_start = None\<rparr>"

definition TaskRowData_new :: "pyval \<Rightarrow> pyval \<Rightarrow> TaskRowData" where
  \<comment> \<open>\<^verbatim>\<open>TaskRowData(task, subtask)\<close>: the default factory makes seven days.\<close>
  "TaskRowData_new t s = \<lparr>task = t, subtask = s, days = replicate 7 DayData_new\<rparr>"

definition DayData_to_dict :: "DayData \<Rightarrow> pyval" where
  "DayData_to_dict d = PDict [(''sessions'', sessions d), (''notes'', notes_field d)]"

definition DayData_from_dict :: "pyval \<Rightarrow> error + DayData" where
  "DayData_from_dict d =
     (let obj = DayData_new in
      case py_get d ''sessions'' (PList []) of Inl e \<Rightarrow> Inl e
      | Inr s \<Rightarrow>
          (let obj = obj\<lparr>sessions := s\<rparr> in
           case py_get d ''notes'' (PStr []) of Inl e \<Rightarrow> Inl e
           | Inr n \<Rightarrow> Inr (obj\<lparr>notes_field := n\<rparr>)))"

definition TaskRowData_to_dict :: "TaskRowData \<Rightarrow> pyval" where
  "TaskRowData_to_dict r =
     PDict [(''task'', task r), (''subtask'', subtask r),
            (''days'', PList (map DayData_to_dict (days r)))]"

definition TaskRowData_from_dict :: "pyval \<Rightarrow> error + TaskRowData" where
  "TaskRowData_from_dict d =
     (case py_getitem d ''task'' of Inl e \<Rightarrow> Inl e
      | Inr t \<Rightarrow>
     (case py_getitem d ''subtask'' of Inl e \<Rightarrow> Inl e
      | Inr s \<Rightarrow>
     (let tr = TaskRowData_new t s in
      case py_get d ''days'' (PList []) of Inl e \<Rightarrow> Inl e
      | Inr dl \<Rightarrow>
     (case py_iter dl of Inl e \<Rightarrow> Inl e
      | Inr dds \<Rightarrow>
     (case emap DayData_from_dict dds of Inl e \<Rightarrow> Inl e
      | Inr ds \<Rightarrow> Inr (tr\<lparr>days := ds\<rparr>))))))"

section \<open>Hours\<close>

text \<open>\<^verbatim>\<open>datetime.fromisoformat(v)\<close> on a value, and the unpacking \<^verbatim>\<open>s_iso, e_iso = x\<close>.\<close>

fun py_fromisoformat :: "'f pylib \<Rightarrow> pyval \<Rightarrow> error + int" where
  "py_fromisoformat L (PStr s) =
     (case fromisoformat L s of None \<Rightarrow> Inl ValueError | Some t \<Rightarrow> Inr t)"
| "py_fromisoformat L _ = Inl TypeError"

definition unpack2 :: "pyval \<Rightarrow> error + pyval \<times> pyval" where
  "unpack2 x =
     (case py_iter x of Inl e \<Rightarrow> Inl e
      | Inr ys \<Rightarrow> (case ys of [a, b] \<Rightarrow> Inr (a, b) | _ \<Rightarrow> Inl ValueError))"

text \<open>The loop of \<^verbatim>\<open>DayData.total_hours\<close> over the sessions, with its accumulator.\<close>

fun sum_sessions :: "'f pylib \<Rightarrow> 'f \<Rightarrow> pyval list \<Rightarrow> error + 'f" where
  "sum_sessions L tot [] = Inr tot"
| "sum_sessions L tot (x # xs) =
     (case unpack2 x of Inl e \<Rightarrow> Inl e
      | Inr (s_iso, e_iso) \<Rightarrow>
     (case py_fromisoformat L s_iso of Inl e \<Rightarrow> Inl e
      | Inr s \<Rightarrow>
     (case py_fromisoformat L e_iso of Inl e \<Rightarrow> Inl e
      | Inr e \<Rightarrow> sum_sessions L (fadd L tot (hours L (e - s))) xs)))"

text \<open>
  \<^verbatim>\<open>DayData.total_hours\<close>; \<open>now\<close> is what \<^verbatim>\<open>datetime.now()\<close> returns when the method
  reads the clock.
\<close>

definition DayData_total_hours :: "'f pylib \<Rightarrow> int \<Rightarrow> DayData \<Rightarrow> error + 'f" where
  "DayData_total_hours L now d =
     (case py_iter (sessions d) of Inl e \<Rightarrow> Inl e
      | Inr xs \<Rightarrow>
     (case sum_sessions L (fzero L) xs of Inl e \<Rightarrow> Inl e
      | Inr tot \<Rightarrow>
          Inr (case running_start d of None \<Rightarrow> tot
               | Some t0 \<Rightarrow> fadd L tot (hours L (now - t0)))))"

definition TaskRowData_total_hours :: "'f pylib \<Rightarrow> int \<Rightarrow> TaskRowData \<Rightarrow> error + 'f" where
  "TaskRowData_total_hours L now r =
     (case emap (DayData_total_hours L now) (days r) of Inl e \<Rightarrow> Inl e
      | Inr hs \<Rightarrow> Inr (pysum L hs))"

section \<open>The store and the application state\<close>

text \<open>
  The data file is described by what \<^verbatim>\<open>_load_data\<close> finds: no file, a file that
  \<^verbatim>\<open>open\<close> or \<^verbatim>\<open>json.load\<close> reject, or the value \<^verbatim>\<open>json.load\<close> returns. Writing is
  taken to succeed.
\<close>

datatype filestate = NoFile | Unreadable | Content pyval

type_synonym store = "(string \<times> TaskRowData list) list"

text \<open>
  The loop of \<^verbatim>\<open>_load_data\<close> over \<^verbatim>\<open>raw.items()\<close>. It assigns to \<^verbatim>\<open>self.data_store\<close>
  key by key, so an exception leaves the store partly filled: the result is the
  exception, if any, and the store at that moment.
\<close>

fun load_items :: "store \<Rightarrow> (string \<times> pyval) list \<Rightarrow> error option \<times> store" where
  "load_items ds [] = (None, ds)"
| "load_items ds ((key, rws) # rest) =
     (case py_iter rws of Inl e \<Rightarrow> (Some e, ds)
      | Inr rs \<Rightarrow>
     (case emap TaskRowData_from_dict rs of Inl e \<Rightarrow> (Some e, ds)
      | Inr trs \<Rightarrow> load_items (AList.update key trs ds) rest))"

definition load_try :: "store \<Rightarrow> filestate \<Rightarrow> error option \<times> store" where
  \<comment> \<open>the body of the \<^verbatim>\<open>try\<close>\<close>
  "load_try ds f =
     (case f of
        Content raw \<Rightarrow>
          (case raw of PDict kvs \<Rightarrow> load_items ds kvs | _ \<Rightarrow> (Some AttributeError, ds))
      | _ \<Rightarrow> (Some OSError, ds))"

definition load_data :: "store \<Rightarrow> filestate \<Rightarrow> store" where
  "load_data ds f =
     (if f \<noteq> NoFile then
        (case load_try ds f of (Some e, ds') \<Rightarrow> [] | (None, ds') \<Rightarrow> ds')
      else ds)"

text \<open>
  The state of \<^verbatim>\<open>TimesheetApp\<close> that the timer and the store use. \<^verbatim>\<open>self.rows\<close> is not
  a copy: \<^verbatim>\<open>_load_employee_week\<close> binds it to the list \<^verbatim>\<open>self.data_store[key]\<close>, so a
  change of a row is a change of the store. The state keeps the key, and
  \<open>rows\<close> reads the store under it.
\<close>

record app =
  data_store :: store
  cur_key :: string
  active_timer :: "(nat \<times> nat) option"
  data_file :: filestate

definition rows :: "app \<Rightarrow> TaskRowData list" where
  "rows st = (case map_of (data_store st) (cur_key st) of None \<Rightarrow> [] | Some rs \<Rightarrow> rs)"

definition store_to_dict :: "store \<Rightarrow> pyval" where
  \<comment> \<open>\<^verbatim>\<open>out\<close> of \<^verbatim>\<open>_save_data\<close>\<close>
  "store_to_dict ds = PDict (map (\<lambda>(k, v). (k, PList (map TaskRowData_to_dict v))) ds)"

definition save_data :: "app \<Rightarrow> app" where
  "save_data st = st\<lparr>data_file := Content (json_dump (store_to_dict (data_store st)))\<rparr>"

section \<open>The table of hours\<close>

text \<open>
  \<^verbatim>\<open>_build_table\<close>, \<^verbatim>\<open>_add_total_row\<close> and \<^verbatim>\<open>_update_week_total\<close> change no data: they
  compute the hours that the widgets show. The model returns these numbers (the seven
  cells and the total of each row, the row of daily totals with the week total when
  there is a row, and the label of the weekly total), or the exception that ends the
  computation. \<open>now\<close> is the reading of the clock, the same for every cell.
\<close>

definition cell_hours :: "'f pylib \<Rightarrow> int \<Rightarrow> TaskRowData \<Rightarrow> nat \<Rightarrow> error + 'f" where
  \<comment> \<open>\<^verbatim>\<open>row.days[di].total_hours()\<close>\<close>
  "cell_hours L now r di =
     (case py_index (days r) di of Inl e \<Rightarrow> Inl e | Inr d \<Rightarrow> DayData_total_hours L now d)"

definition daily_total :: "'f pylib \<Rightarrow> int \<Rightarrow> TaskRowData list \<Rightarrow> nat \<Rightarrow> error + 'f" where
  \<comment> \<open>\<^verbatim>\<open>sum(r.days[di].total_hours() for r in self.rows)\<close>\<close>
  "daily_total L now rs di =
     (case emap (\<lambda>r. cell_hours L now r di) rs of Inl e \<Rightarrow> Inl e
      | Inr hs \<Rightarrow> Inr (pysum L hs))"

definition week_total :: "'f pylib \<Rightarrow> int \<Rightarrow> TaskRowData list \<Rightarrow> error + 'f" where
  \<comment> \<open>\<^verbatim>\<open>sum(r.total_hours() for r in self.rows)\<close>\<close>
  "week_total L now rs =
     (case emap (TaskRowData_total_hours L now) rs of Inl e \<Rightarrow> Inl e
      | Inr hs \<Rightarrow> Inr (pysum L hs))"

definition add_total_row ::
  "'f pylib \<Rightarrow> int \<Rightarrow> TaskRowData list \<Rightarrow> error + ('f list \<times> 'f) option" where
  "add_total_row L now rs =
     (if rs = [] then Inr None
      else
        (case emap (daily_total L now rs) [0..<7] of Inl e \<Rightarrow> Inl e
         | Inr ds \<Rightarrow>
        (case week_total L now rs of Inl e \<Rightarrow> Inl e
         | Inr w \<Rightarrow> Inr (Some (ds, w)))))"

definition update_week_total :: "'f pylib \<Rightarrow> int \<Rightarrow> TaskRowData list \<Rightarrow> error + 'f" where
  "update_week_total L now rs = week_total L now rs"

definition table_row :: "'f pylib \<Rightarrow> int \<Rightarrow> TaskRowData \<Rightarrow> error + 'f list \<times> 'f" where
  \<comment> \<open>one turn of the loop of \<^verbatim>\<open>_build_table\<close> over the rows\<close>
  "table_row L now r =
     (case emap (cell_hours L now r) [0..<7] of Inl e \<Rightarrow> Inl e
      | Inr cs \<Rightarrow>
     (case TaskRowData_total_hours L now r of Inl e \<Rightarrow> Inl e
      | Inr t \<Rightarrow> Inr (cs, t)))"

definition build_table ::
  "'f pylib \<Rightarrow> int \<Rightarrow> TaskRowData list
     \<Rightarrow> error + ('f list \<times> 'f) list \<times> ('f list \<times> 'f) option \<times> 'f" where
  "build_table L now rs =
     (case emap (table_row L now) rs of Inl e \<Rightarrow> Inl e
      | Inr trs \<Rightarrow>
     (case add_total_row L now rs of Inl e \<Rightarrow> Inl e
      | Inr tr \<Rightarrow>
     (case update_week_total L now rs of Inl e \<Rightarrow> Inl e
      | Inr w \<Rightarrow> Inr (trs, tr, w))))"

section \<open>The timer\<close>

text \<open>
  \<^verbatim>\<open>dd = self.rows[ri].days[di]\<close>, with the indices that the buttons pass (those of
  \<^verbatim>\<open>enumerate(self.rows)\<close> and \<^verbatim>\<open>range(7)\<close>, never negative), and an assignment to a
  field of that object, which changes the row in the store.
\<close>

definition get_day :: "app \<Rightarrow> nat \<Rightarrow> nat \<Rightarrow> error + DayData" where
  "get_day st ri di =
     (case py_index (rows st) ri of Inl e \<Rightarrow> Inl e | Inr r \<Rightarrow> py_index (days r) di)"

definition set_day :: "app \<Rightarrow> nat \<Rightarrow> nat \<Rightarrow> DayData \<Rightarrow> app" where
  "set_day st ri di d =
     (let rs = rows st; r = rs ! ri in
      st\<lparr>data_store :=
           AList.update (cur_key st) (rs[ri := r\<lparr>days := (days r)[di := d]\<rparr>]) (data_store st)\<rparr>)"

text \<open>
  The operations return the exception or rejection, if any, and the state they leave:
  an exception does not undo the assignments made before it. \<open>now\<close> is the value of
  \<^verbatim>\<open>datetime.now()\<close>, \<open>today\<close> the instant at which \<^verbatim>\<open>date.today()\<close> is read. The
  widgets and the \<^verbatim>\<open>QTimer\<close> are left out.
\<close>

definition stop_timer :: "'f pylib \<Rightarrow> app \<Rightarrow> nat \<Rightarrow> nat \<Rightarrow> int \<Rightarrow> error option \<times> app" where
  "stop_timer L st ri di now =
     (case get_day st ri di of Inl e \<Rightarrow> (Some e, st)
      | Inr dd \<Rightarrow>
     (case (case running_start dd of
              None \<Rightarrow> Inr (dd, st)
            | Some t0 \<Rightarrow>
                (case sessions dd of
                   PList xs \<Rightarrow>
                     (let dd' = dd\<lparr>sessions :=
                                    PList (xs @ [PTuple [PStr (isoformat L t0),
                                                         PStr (isoformat L now)]]),
                                  running_start := None\<rparr>
                      in Inr (dd', set_day st ri di dd'))
                 | _ \<Rightarrow> Inl AttributeError))
      of Inl e \<Rightarrow> (Some e, st)
      | Inr (dd, st) \<Rightarrow>
     (case DayData_total_hours L now dd of Inl e \<Rightarrow> (Some e, st)
      | Inr h \<Rightarrow>
          (let st = st\<lparr>active_timer := None\<rparr>;
               st = save_data st
           in (case build_table L now (rows st) of Inl e \<Rightarrow> (Some e, st)
               | Inr t \<Rightarrow> (None, st))))))"

definition toggle_timer ::
  "'f pylib \<Rightarrow> app \<Rightarrow> nat \<Rightarrow> nat \<Rightarrow> int \<Rightarrow> int \<Rightarrow> error option \<times> app" where
  "toggle_timer L st ri di today now =
     (case get_day st ri di of Inl e \<Rightarrow> (Some e, st)
      | Inr dd \<Rightarrow>
          if active_timer st = Some (ri, di) then stop_timer L st ri di now
          else if active_timer st \<noteq> None then (Some TimerBusyError, st)
          else if di \<noteq> weekday today then (Some WrongDayError, st)
          else (None, (set_day st ri di (dd\<lparr>running_start := Some now\<rparr>))
                        \<lparr>active_timer := Some (ri, di)\<rparr>))"

text \<open>A sequence of clicks on the start/stop buttons, each with its readings of the clock.\<close>

fun toggles :: "'f pylib \<Rightarrow> app \<Rightarrow> (nat \<times> nat \<times> int \<times> int) list \<Rightarrow> app" where
  "toggles L st [] = st"
| "toggles L st ((ri, di, today, now) # ops) =
     toggles L (snd (toggle_timer L st ri di today now)) ops"

text \<open>The (entry, weekday) pairs of the loaded sheet whose timer is open.\<close>

definition open_timers :: "app \<Rightarrow> (nat \<times> nat) list" where
  "open_timers st =
     concat (map (\<lambda>ri. map (Pair ri)
                    (filter (\<lambda>di. running_start (days (rows st ! ri) ! di) \<noteq> None)
                       [0..<length (days (rows st ! ri))]))
               [0..<length (rows st)])"

section \<open>Notions used in the statements\<close>

text \<open>
  What \<^verbatim>\<open>_stop_timer\<close> makes of a day whose timer is open and whose sessions are a list:
  the open interval becomes a session and the timer is cleared.
\<close>

definition close_session :: "'f pylib \<Rightarrow> DayData \<Rightarrow> int \<Rightarrow> DayData" where
  "close_session L dd now =
     (case (running_start dd, sessions dd) of
        (Some t0, PList xs) \<Rightarrow>
          dd\<lparr>sessions := PList (xs @ [PTuple [PStr (isoformat L t0), PStr (isoformat L now)]]),
             running_start := None\<rparr>
      | _ \<Rightarrow> dd)"

text \<open>
  The invariant of the timer: a day of the loaded sheet with an open timer is the day
  that \<^verbatim>\<open>self.active_timer\<close> names. \<open>quiet\<close>: no day of the loaded sheet has an open timer.
\<close>

definition timer_inv :: "app \<Rightarrow> bool" where
  "timer_inv st \<longleftrightarrow>
     (\<forall>ri di dd. get_day st ri di = Inr dd \<longrightarrow> running_start dd \<noteq> None
        \<longrightarrow> active_timer st = Some (ri, di))"

definition quiet :: "app \<Rightarrow> bool" where
  "quiet st \<longleftrightarrow> (\<forall>ri di dd. get_day st ri di = Inr dd \<longrightarrow> running_start dd = None)"

definition no_open_timer :: "store \<Rightarrow> bool" where
  "no_open_timer ds =
     (\<forall>kv \<in> set ds. \<forall>r \<in> set (snd kv). \<forall>d \<in> set (days r). running_start d = None)"

text \<open>
  What the persisted format keeps of a day and of a task entry, in the words of the
  specification: the task and subtask names, and for each day the session list and the
  notes, as JSON values, without \<^verbatim>\<open>running_start\<close>.
\<close>

definition reloaded_day :: "DayData \<Rightarrow> DayData" where
  "reloaded_day d =
     \<lparr>sessions = json_dump (sessions d), notes_field = json_dump (notes_field d),
      running_start = None\<rparr>"

definition reloaded_row :: "TaskRowData \<Rightarrow> TaskRowData" where
  "reloaded_row r =
     \<lparr>task = json_dump (task r), subtask = json_dump (subtask r),
      days = map reloaded_day (days r)\<rparr>"

section \<open>The scenario of the specification\<close>

text \<open>
  Monday 2024-06-03 at 09:00, 09:30 and 10:15, in microseconds since 0001-01-01, and the
  library at these three instants, with exact rational arithmetic for the hours.
  Employee A has just added one task to the week of 2024-06-03, which \<^verbatim>\<open>_add_task\<close> saved.
\<close>

definition t0900 :: int where "t0900 = 63853002000000000"
definition t0930 :: int where "t0930 = 63853003800000000"
definition t1015 :: int where "t1015 = 63853006500000000"

definition scenario_lib :: "rat pylib" where
  "scenario_lib =
     \<lparr>fromisoformat = (\<lambda>s. if s = ''2024-06-03T09:00:00'' then Some t0900
                           else if s = ''2024-06-03T09:30:00'' then Some t0930
                           else if s = ''2024-06-03T10:15:00'' then Some t1015
                           else None),
      isoformat = (\<lambda>t. if t = t0900 then ''2024-06-03T09:00:00''
                       else if t = t0930 then ''2024-06-03T09:30:00''
                       else if t = t1015 then ''2024-06-03T10:15:00''
                       else []),
      hours = (\<lambda>td. of_int td / 3600000000),
      fzero = 0,
      fadd = (+),
      pysum = sum_list\<rparr>"

definition scenario_app :: app where
  "scenario_app =
     save_data
       \<lparr>data_store =
          [(''A::2024-06-03'',
            [TaskRowData_new (PStr ''Curriculum Development'')
               (PStr ''Presentation (PPT) Preparation'')])],
        cur_key = ''A::2024-06-03'',
        active_timer = None,
        data_file = NoFile\<rparr>"

text \<open>The timer of Monday started at 09:00; started at 10:15; started at 09:00 and stopped at 10:15.\<close>

definition running_app :: app where
  "running_app = snd (toggle_timer scenario_lib scenario_app 0 0 t0900 t0900)"

definition late_app :: app where
  "late_app = snd (toggle_timer scenario_lib scenario_app 0 0 t1015 t1015)"

definition stopped_app :: app where
  "stopped_app =
     toggles scenario_lib scenario_app [(0, 0, t0900, t0900), (0, 0, t1015, t1015)]"

text \<open>
  No timer is open, the task of A is saved, and the week of a second employee B has been
  opened since: \<^verbatim>\<open>_load_employee_week\<close> adds the key of B to the store and does not save.
\<close>

definition idle_app :: app where
  "idle_app = scenario_app\<lparr>data_store := data_store scenario_app @ [(''B::2024-06-03'', [])]\<rparr>"

text \<open>A data file whose first key decodes and whose second key holds a number.\<close>

definition bad_file :: filestate where
  "bad_file =
     Content (PDict [(''A::2024-06-03'',
                      PList [PDict [(''task'', PStr ''T''), (''subtask'', PStr ''S'')]]),
                     (''B::2024-06-03'', PNum 5)])"

definition scenario_hours :: "DayData \<Rightarrow> rat" where
  "scenario_hours d = (if sessions d = PList [] then 0 else 5 / 4)"

section \<open>Comprehensions, dictionaries and JSON\<close>

lemma emap_all_Inr: "(\<And>x. x \<in> set xs \<Longrightarrow> f x = Inr (g x)) \<Longrightarrow> emap f xs = Inr (map g xs)"
  by (induction xs) auto

lemma emap_Inr_set: "emap f xs = Inr ys \<Longrightarrow> y \<in> set ys \<Longrightarrow> \<exists>x \<in> set xs. f x = Inr y"
  by (induction xs arbitrary: ys) (auto split: sum.splits)

lemma emap_map: "emap f (map h xs) = emap (\<lambda>x. f (h x)) xs"
  by (induction xs) (auto split: sum.splits)

lemma update_set_cases: "(k', v') \<in> set (AList.update k v al) \<Longrightarrow> v' = v \<or> (k', v') \<in> set al"
  by (induction al) (auto split: if_splits)

lemma update_fresh: "k \<notin> fst ` set al \<Longrightarrow> AList.update k v al = al @ [(k, v)]"
  by (induction al) auto

lemma py_iter_json_dump:
  "py_iter (json_dump v) = (case py_iter v of Inl e \<Rightarrow> Inl e | Inr xs \<Rightarrow> Inr (map json_dump xs))"
  by (cases v) simp_all

lemma py_fromisoformat_json_dump: "py_fromisoformat L (json_dump v) = py_fromisoformat L v"
  by (cases v) simp_all

lemma unpack2_json_dump:
  "unpack2 (json_dump v)
     = (case unpack2 v of Inl e \<Rightarrow> Inl e | Inr (a, b) \<Rightarrow> Inr (json_dump a, json_dump b))"
  by (auto simp: unpack2_def py_iter_json_dump split: sum.splits list.splits)

lemma sum_sessions_json_dump:
  "sum_sessions L tot (map json_dump xs) = sum_sessions L tot xs"
  by (induction xs arbitrary: tot)
     (auto simp: unpack2_json_dump py_fromisoformat_json_dump split: sum.splits prod.splits)

lemma sum_sessions_append:
  "sum_sessions L tot (xs @ ys)
     = (case sum_sessions L tot xs of Inl e \<Rightarrow> Inl e | Inr t \<Rightarrow> sum_sessions L t ys)"
  by (induction xs arbitrary: tot) (auto split: sum.splits prod.splits)

section \<open>Decoding a stored task entry\<close>

lemma DayData_from_dict_defaults:
  "DayData_from_dict (PDict [])
     = Inr \<lparr>sessions = PList [], notes_field = PStr [], running_start = None\<rparr>"
  by (simp add: DayData_from_dict_def DayData_new_def)

lemma DayData_from_dict_running: "DayData_from_dict v = Inr d \<Longrightarrow> running_start d = None"
  by (cases v) (auto simp: DayData_from_dict_def DayData_new_def Let_def split: sum.splits)

lemma TaskRowData_from_dict_running:
  "TaskRowData_from_dict v = Inr r \<Longrightarrow> d \<in> set (days r) \<Longrightarrow> running_start d = None"
  by (auto simp: TaskRowData_from_dict_def Let_def split: sum.splits
           dest!: emap_Inr_set DayData_from_dict_running)

text \<open>
  C5. A stored task entry without the key \<^verbatim>\<open>days\<close> is decoded to an entry with no
  day at all, not with seven empty days: \<^verbatim>\<open>from_dict\<close> builds the entry with its
  seven default days and then overwrites them with the empty comprehension over the
  default \<^verbatim>\<open>[]\<close>. Drawing the table for such an entry raises \<^verbatim>\<open>IndexError\<close>.
\<close>

theorem from_dict_missing_days:
  "TaskRowData_from_dict (PDict [(''task'', PStr ''T''), (''subtask'', PStr ''S'')])
     = Inr \<lparr>task = PStr ''T'', subtask = PStr ''S'', days = []\<rparr>
   \<and> days (TaskRowData_new (PStr ''T'') (PStr ''S'')) = replicate 7 DayData_new
   \<and> build_table scenario_lib t0900 [\<lparr>task = PStr ''T'', subtask = PStr ''S'', days = []\<rparr>]
       = Inl IndexError"
  by code_simp

section \<open>Loading and saving\<close>

text \<open>
  C9. \<^verbatim>\<open>_load_data\<close> always leaves a mapping in \<^verbatim>\<open>self.data_store\<close> and never raises:
  whenever the body of its \<^verbatim>\<open>try\<close> raises, on a file that cannot be read or parsed or on
  a value that does not decode, the store is empty afterwards, whatever the loop had
  put into it before the exception.
\<close>

theorem load_failure_gives_empty:
  "f \<noteq> NoFile \<Longrightarrow> fst (load_try ds f) = Some e \<Longrightarrow> load_data ds f = []"
  by (auto simp: load_data_def split: prod.splits option.splits)

theorem load_failure_gives_empty_witness:
  "bad_file \<noteq> NoFile
   \<and> fst (load_try [] bad_file) = Some TypeError
   \<and> map fst (snd (load_try [] bad_file)) = [''A::2024-06-03'']
   \<and> load_data [] bad_file = []"
proof -
  have a: "bad_file \<noteq> NoFile" by (simp add: bad_file_def)
  have b: "fst (load_try [] bad_file) = Some TypeError" by code_simp
  have c: "map fst (snd (load_try [] bad_file)) = [''A::2024-06-03'']" by code_simp
  show ?thesis using a b c load_failure_gives_empty [OF a b] by simp
qed

lemma load_items_no_open_timer:
  "no_open_timer ds \<Longrightarrow> no_open_timer (snd (load_items ds kvs))"
proof (induction ds kvs rule: load_items.induct)
  case (1 ds)
  then show ?case by simp
next
  case (2 ds key rws rest)
  show ?case
  proof (cases "py_iter rws")
    case (Inl e)
    then show ?thesis using "2.prems" by simp
  next
    case (Inr rs)
    note it = this
    show ?thesis
    proof (cases "emap TaskRowData_from_dict rs")
      case (Inl e)
      then show ?thesis using "2.prems" it by simp
    next
      case (Inr trs)
      have "no_open_timer (AList.update key trs ds)"
        unfolding no_open_timer_def
      proof (intro ballI)
        fix kv r d
        assume kv: "kv \<in> set (AList.update key trs ds)" and r: "r \<in> set (snd kv)"
          and d: "d \<in> set (days r)"
        from kv have "snd kv = trs \<or> kv \<in> set ds"
          using update_set_cases [of "fst kv" "snd kv" key trs ds] by simp
        then show "running_start d = None"
        proof
          assume "snd kv = trs"
          with r obtain v where "TaskRowData_from_dict v = Inr r"
            using emap_Inr_set [OF Inr] by blast
          then show ?thesis using d by (rule TaskRowData_from_dict_running)
        next
          assume "kv \<in> set ds"
          then show ?thesis using "2.prems" r d by (auto simp: no_open_timer_def)
        qed
      qed
      then show ?thesis using "2.IH" [OF it Inr] it Inr by simp
    qed
  qed
qed

lemma load_data_no_open_timer: "no_open_timer (load_data [] f)"
proof -
  have e: "no_open_timer []" by (simp add: no_open_timer_def)
  have "no_open_timer (snd (load_try [] f))"
    using e load_items_no_open_timer [OF e]
    by (auto simp: load_try_def split: filestate.splits pyval.splits)
  then show ?thesis using e
    by (auto simp: load_data_def split: prod.splits option.splits)
qed

text \<open>
  C10. Persistence discards an open timer: \<^verbatim>\<open>to_dict\<close> writes the sessions and the notes
  of a day whatever its \<^verbatim>\<open>running_start\<close>, every day that \<^verbatim>\<open>from_dict\<close> makes has no
  \<^verbatim>\<open>running_start\<close>, and so no day of a store loaded at start-up, from any file and in
  particular from the file that a save of any state wrote, has an open timer.
\<close>

theorem reload_discards_open_timer:
  "DayData_to_dict (d\<lparr>running_start := x\<rparr>) = DayData_to_dict d
   \<and> (DayData_from_dict v = Inr d' \<longrightarrow> running_start d' = None)
   \<and> no_open_timer (load_data [] f)
   \<and> no_open_timer (load_data [] (data_file (save_data st)))"
  by (simp add: DayData_to_dict_def DayData_from_dict_running load_data_no_open_timer)

theorem reload_discards_open_timer_witness:
  "map (\<lambda>kv. map (\<lambda>r. map running_start (days r)) (snd kv)) (data_store running_app)
     = [[[Some t0900, None, None, None, None, None, None]]]
   \<and> DayData_from_dict (PDict []) = Inr DayData_new
   \<and> running_start DayData_new = None
   \<and> map fst (load_data [] (data_file (save_data running_app))) = [''A::2024-06-03'']
   \<and> map (\<lambda>kv. map (\<lambda>r. map running_start (days r)) (snd kv))
         (load_data [] (data_file (save_data running_app)))
       = [[[None, None, None, None, None, None, None]]]"
proof -
  have a: "map (\<lambda>kv. map (\<lambda>r. map running_start (days r)) (snd kv)) (data_store running_app)
     = [[[Some t0900, None, None, None, None, None, None]]]"
    by code_simp
  have b: "DayData_from_dict (PDict []) = Inr DayData_new" by code_simp
  have c: "map fst (load_data [] (data_file (save_data running_app))) = [''A::2024-06-03'']"
    by code_simp
  have l: "map (\<lambda>kv. map (\<lambda>r. map length [days r]) (snd kv))
         (load_data [] (data_file (save_data running_app))) = [[[7]]]"
    by code_simp
  have n: "no_open_timer (load_data [] (data_file (save_data running_app)))
      \<and> running_start DayData_new = None"
    using b
      reload_discards_open_timer [where d = DayData_new and x = None and v = "PDict []"
        and d' = DayData_new and f = "data_file (save_data running_app)" and st = running_app]
    by simp
  obtain k r where ld: "load_data [] (data_file (save_data running_app)) = [(k, [r])]"
    using l by (auto simp: map_eq_Cons_conv)
  have len: "length (days r) = 7" using l ld by simp
  have "\<forall>d \<in> set (days r). running_start d = None"
    using n ld by (simp add: no_open_timer_def)
  then have "map running_start (days r) = replicate 7 None"
    using len by (intro replicate_eqI) auto
  then have "map running_start (days r) = [None, None, None, None, None, None, None]"
    by (simp add: eval_nat_numeral)
  then show ?thesis using a b c n ld by simp
qed

lemma DayData_roundtrip:
  "DayData_from_dict (json_dump (DayData_to_dict d)) = Inr (reloaded_day d)"
  by (simp add: DayData_from_dict_def DayData_to_dict_def DayData_new_def reloaded_day_def)

lemma TaskRowData_roundtrip:
  "TaskRowData_from_dict (json_dump (TaskRowData_to_dict r)) = Inr (reloaded_row r)"
proof -
  have "emap DayData_from_dict (map json_dump (map DayData_to_dict (days r)))
          = Inr (map reloaded_day (days r))"
    by (simp add: emap_map emap_all_Inr DayData_roundtrip)
  then show ?thesis
    by (simp add: TaskRowData_from_dict_def TaskRowData_to_dict_def TaskRowData_new_def
        reloaded_row_def)
qed

lemma load_items_saved:
  "distinct (map fst ds) \<Longrightarrow> fst ` set ds \<inter> fst ` set acc = {} \<Longrightarrow>
   load_items acc
     (map (map_prod id json_dump) (map (\<lambda>(k, v). (k, PList (map TaskRowData_to_dict v))) ds))
     = (None, acc @ map (\<lambda>(k, rs). (k, map reloaded_row rs)) ds)"
proof (induction ds arbitrary: acc)
  case Nil
  then show ?case by simp
next
  case (Cons kv ds)
  obtain k rs where kv: "kv = (k, rs)" by (cases kv)
  have em: "emap TaskRowData_from_dict (map json_dump (map TaskRowData_to_dict rs))
              = Inr (map reloaded_row rs)"
    by (simp add: emap_map emap_all_Inr TaskRowData_roundtrip)
  have fresh: "k \<notin> fst ` set acc" using Cons.prems kv by auto
  have d: "distinct (map fst ds)" using Cons.prems by simp
  have disj: "fst ` set ds \<inter> fst ` set (acc @ [(k, map reloaded_row rs)]) = {}"
    using Cons.prems kv by auto
  show ?case
    using Cons.IH [OF d disj] em
    by (simp add: kv update_fresh [OF fresh])
qed

lemma total_hours_reloaded:
  "DayData_total_hours L now (reloaded_day d)
     = DayData_total_hours L now (d\<lparr>running_start := None\<rparr>)"
  by (simp add: DayData_total_hours_def reloaded_day_def py_iter_json_dump
      sum_sessions_json_dump split: sum.splits)

text \<open>
  C6. Round trip through the store: loading at start-up the file that \<^verbatim>\<open>_save_data\<close>
  wrote gives the same keys in the same order, and under each key the same entries with
  the same task, subtask, sessions and notes as JSON reads them back (a session that the
  timer appended as a pair of strings comes back as a two-element list of the same
  strings) and without \<^verbatim>\<open>running_start\<close>; a day read back has the hours of the saved
  day with its timer cleared. The keys of the store are distinct, as those of a
  dictionary are.
\<close>

theorem save_load_roundtrip:
  "distinct (map fst (data_store st)) \<Longrightarrow>
   load_data [] (data_file (save_data st))
     = map (\<lambda>(k, rs). (k, map reloaded_row rs)) (data_store st)
   \<and> DayData_total_hours L now (reloaded_day d)
       = DayData_total_hours L now (d\<lparr>running_start := None\<rparr>)"
  using load_items_saved [of "data_store st" "[]"]
  by (simp add: load_data_def load_try_def save_data_def store_to_dict_def total_hours_reloaded)

theorem save_load_roundtrip_witness:
  "distinct (map fst (data_store stopped_app))
   \<and> load_data [] (data_file (save_data stopped_app))
       = map (\<lambda>(k, rs). (k, map reloaded_row rs)) (data_store stopped_app)
   \<and> map fst (load_data [] (data_file (save_data stopped_app))) = [''A::2024-06-03'']"
proof -
  have a: "distinct (map fst (data_store stopped_app))" by code_simp
  have b: "map fst (load_data [] (data_file (save_data stopped_app))) = [''A::2024-06-03'']"
    by code_simp
  show ?thesis
    using a b save_load_roundtrip [OF a, where L = scenario_lib and now = t1015
        and d = DayData_new]
    by simp
qed

section \<open>The timer: what the operations do to the state\<close>

lemma rows_set_day:
  "rows (set_day st ri di d)
     = (rows st)[ri := (rows st ! ri)\<lparr>days := (days (rows st ! ri))[di := d]\<rparr>]"
  by (simp add: rows_def set_day_def Let_def update_conv')

lemma rows_active_timer_update [simp]: "rows (st\<lparr>active_timer := a\<rparr>) = rows st"
  by (simp add: rows_def)

lemma rows_save_data [simp]: "rows (save_data st) = rows st"
  by (simp add: rows_def save_data_def)

lemma active_timer_set_day [simp]: "active_timer (set_day st ri di d) = active_timer st"
  by (simp add: set_day_def Let_def)

lemma active_timer_save_data [simp]: "active_timer (save_data st) = active_timer st"
  by (simp add: save_data_def)

lemma get_day_Inr_iff:
  "get_day st ri di = Inr dd \<longleftrightarrow>
     ri < length (rows st) \<and> di < length (days (rows st ! ri)) \<and> dd = days (rows st ! ri) ! di"
  by (auto simp: get_day_def py_index_def)

lemma get_day_set_day:
  "get_day st ri di = Inr dd \<Longrightarrow>
   get_day (set_day st ri di d) ri' di'
     = (if ri' = ri \<and> di' = di then Inr d else get_day st ri' di')"
  by (auto simp: get_day_def py_index_def rows_set_day nth_list_update split: if_splits)

lemma get_day_active_update [simp]:
  "get_day (st\<lparr>active_timer := a\<rparr>) ri di = get_day st ri di"
  by (simp add: get_day_def)

lemma get_day_save_data [simp]: "get_day (save_data st) ri di = get_day st ri di"
  by (simp add: get_day_def)

lemma quiet_inv: "quiet st \<Longrightarrow> timer_inv st"
  by (simp add: quiet_def timer_inv_def)

lemma quiet_save [simp]: "quiet (save_data st) = quiet st"
  by (simp add: quiet_def)

lemma quiet_active [simp]: "quiet (st\<lparr>active_timer := a\<rparr>) = quiet st"
  by (simp add: quiet_def)

text \<open>The three ways through \<^verbatim>\<open>_stop_timer\<close> once the day exists.\<close>

lemma stop_timer_idle_day:
  assumes "get_day st ri di = Inr dd" "running_start dd = None"
  shows "stop_timer L st ri di now =
     (case DayData_total_hours L now dd of Inl e \<Rightarrow> (Some e, st)
      | Inr h \<Rightarrow> (case build_table L now (rows st) of Inl e \<Rightarrow> Some e | Inr t \<Rightarrow> None,
                  save_data (st\<lparr>active_timer := None\<rparr>)))"
  using assms by (simp add: stop_timer_def Let_def split: sum.splits)

lemma stop_timer_running_day:
  assumes "get_day st ri di = Inr dd" "running_start dd = Some t0" "sessions dd = PList xs"
  shows "stop_timer L st ri di now =
     (let dd' = close_session L dd now; st1 = set_day st ri di dd' in
      case DayData_total_hours L now dd' of Inl e \<Rightarrow> (Some e, st1)
      | Inr h \<Rightarrow> (case build_table L now (rows st1) of Inl e \<Rightarrow> Some e | Inr t \<Rightarrow> None,
                  save_data (st1\<lparr>active_timer := None\<rparr>)))"
  using assms by (simp add: stop_timer_def Let_def close_session_def split: sum.splits)

lemma stop_timer_not_list:
  assumes "get_day st ri di = Inr dd" "running_start dd = Some t0"
    "\<nexists>xs. sessions dd = PList xs"
  shows "stop_timer L st ri di now = (Some AttributeError, st)"
  using assms by (cases "sessions dd") (simp_all add: stop_timer_def)

lemma get_day_after_stop:
  assumes gd: "get_day st ri di = Inr dd" and r: "running_start dd = Some t0"
    and xs: "sessions dd = PList xs"
  shows "get_day (snd (stop_timer L st ri di now)) ri di = Inr (close_session L dd now)"
  by (simp add: stop_timer_running_day [OF gd r xs] Let_def get_day_set_day [OF gd]
      split: sum.splits)

lemma total_hours_close_session:
  assumes "running_start dd = Some t0" "sessions dd = PList xs"
    "fromisoformat L (isoformat L t0) = Some t0" "fromisoformat L (isoformat L t1) = Some t1"
  shows "DayData_total_hours L t1 (close_session L dd t1) = DayData_total_hours L t1 dd"
  using assms
  by (simp add: DayData_total_hours_def close_session_def sum_sessions_append unpack2_def
      split: sum.splits)

section \<open>The timer: the invariant\<close>

lemma quiet_after_close:
  assumes gd: "get_day st ri di = Inr dd"
    and others: "\<And>ri' di' d'. get_day st ri' di' = Inr d' \<Longrightarrow> (ri', di') \<noteq> (ri, di)
      \<Longrightarrow> running_start d' = None"
    and d: "running_start d = None"
  shows "quiet (set_day st ri di d)"
  unfolding quiet_def
proof (intro allI impI)
  fix ri' di' d'
  assume g: "get_day (set_day st ri di d) ri' di' = Inr d'"
  show "running_start d' = None"
  proof (cases "ri' = ri \<and> di' = di")
    case True
    then show ?thesis using g d by (simp add: get_day_set_day [OF gd])
  next
    case False
    then have "get_day st ri' di' = Inr d'"
      using g by (auto simp: get_day_set_day [OF gd] split: if_splits)
    then show ?thesis using others False by blast
  qed
qed

lemma stop_timer_inv:
  assumes inv: "timer_inv st" and act: "active_timer st = Some (ri, di)"
  shows "timer_inv (snd (stop_timer L st ri di now))"
proof (cases "get_day st ri di")
  case (Inl e)
  then show ?thesis using inv by (simp add: stop_timer_def)
next
  case (Inr dd)
  note gd = this
  have others: "\<And>ri' di' d'. get_day st ri' di' = Inr d' \<Longrightarrow> (ri', di') \<noteq> (ri, di)
      \<Longrightarrow> running_start d' = None"
    using inv act unfolding timer_inv_def by (metis option.inject)
  show ?thesis
  proof (cases "running_start dd")
    case None
    have q: "quiet st"
      unfolding quiet_def
    proof (intro allI impI)
      fix ri' di' d' assume g: "get_day st ri' di' = Inr d'"
      show "running_start d' = None"
      proof (cases "(ri', di') = (ri, di)")
        case True then show ?thesis using g gd None by simp
      next
        case False then show ?thesis using others g by blast
      qed
    qed
    show ?thesis
      using inv q by (simp add: stop_timer_idle_day [OF gd None] quiet_inv split: sum.splits)
  next
    case (Some t0)
    show ?thesis
    proof (cases "\<exists>xs. sessions dd = PList xs")
      case False
      then show ?thesis using inv by (simp add: stop_timer_not_list [OF gd Some])
    next
      case True
      then obtain xs where xs: "sessions dd = PList xs" by blast
      have c: "running_start (close_session L dd now) = None"
        by (simp add: close_session_def Some xs)
      have q: "quiet (set_day st ri di (close_session L dd now))"
        using gd others c by (rule quiet_after_close)
      show ?thesis
        using q by (simp add: stop_timer_running_day [OF gd Some xs] Let_def quiet_inv
            split: sum.splits)
    qed
  qed
qed

lemma toggle_timer_inv:
  assumes inv: "timer_inv st"
  shows "timer_inv (snd (toggle_timer L st ri di today now))"
proof (cases "get_day st ri di")
  case (Inl e)
  then show ?thesis using inv by (simp add: toggle_timer_def)
next
  case (Inr dd)
  note gd = this
  show ?thesis
  proof (cases "active_timer st = Some (ri, di)")
    case True
    then show ?thesis using gd stop_timer_inv [OF inv True] by (simp add: toggle_timer_def)
  next
    case False
    note nact = this
    show ?thesis
    proof (cases "active_timer st")
      case (Some a)
      then show ?thesis using gd nact inv by (simp add: toggle_timer_def)
    next
      case None
      show ?thesis
      proof (cases "di = weekday today")
        case False
        then show ?thesis using gd None inv by (simp add: toggle_timer_def)
      next
        case True
        have st': "snd (toggle_timer L st ri di today now)
            = (set_day st ri di (dd\<lparr>running_start := Some now\<rparr>))\<lparr>active_timer := Some (ri, di)\<rparr>"
          using gd None True by (simp add: toggle_timer_def)
        show ?thesis
          unfolding st' timer_inv_def
        proof (intro allI impI)
          fix ri' di' d'
          assume g: "get_day ((set_day st ri di (dd\<lparr>running_start := Some now\<rparr>))
                        \<lparr>active_timer := Some (ri, di)\<rparr>) ri' di' = Inr d'"
            and r: "running_start d' \<noteq> None"
          have "ri' = ri \<and> di' = di"
          proof (rule ccontr)
            assume n: "\<not> (ri' = ri \<and> di' = di)"
            then have "get_day st ri' di' = Inr d'"
              using g by (auto simp: get_day_set_day [OF gd] split: if_splits)
            then show False
              using inv None r unfolding timer_inv_def by (metis option.distinct(1))
          qed
          then show "active_timer ((set_day st ri di (dd\<lparr>running_start := Some now\<rparr>))
                        \<lparr>active_timer := Some (ri, di)\<rparr>) = Some (ri', di')"
            by simp
        qed
      qed
    qed
  qed
qed

lemma toggles_inv: "timer_inv st \<Longrightarrow> timer_inv (toggles L st ops)"
proof (induction L st ops rule: toggles.induct)
  case (1 L st)
  then show ?case by simp
next
  case (2 L st ri di today now ops)
  then show ?case by (simp add: toggle_timer_inv)
qed

lemma open_timers_iff:
  "(ri, di) \<in> set (open_timers st)
     \<longleftrightarrow> (\<exists>dd. get_day st ri di = Inr dd \<and> running_start dd \<noteq> None)"
  by (force simp: open_timers_def get_day_Inr_iff)

lemma distinct_pairs:
  "distinct is \<Longrightarrow> (\<And>i. distinct (g i)) \<Longrightarrow>
   distinct (concat (map (\<lambda>i. map (Pair i) (g i)) is))"
  by (induction "is") (auto simp: distinct_map inj_on_def)

lemma distinct_open_timers: "distinct (open_timers st)"
  unfolding open_timers_def by (rule distinct_pairs) auto

lemma at_most_one:
  "distinct xs \<Longrightarrow> (\<And>x. x \<in> set xs \<Longrightarrow> x = a) \<Longrightarrow> length xs \<le> 1"
  by (cases xs; cases "tl xs") auto

lemma idle_inv: "open_timers st = [] \<Longrightarrow> timer_inv st"
  unfolding timer_inv_def
proof (intro allI impI)
  fix ri di dd
  assume e: "open_timers st = []" and "get_day st ri di = Inr dd" "running_start dd \<noteq> None"
  then have "(ri, di) \<in> set (open_timers st)" unfolding open_timers_iff by blast
  then show "active_timer st = Some (ri, di)" using e by simp
qed

text \<open>
  C1. Single active timer. Start in the Idle state: no timer is active and no day of the
  loaded sheet has an open timer. After any sequence of clicks on the start/stop
  buttons, with any readings of the clock, at most one (entry, weekday) pair of the
  loaded sheet has an open timer; and when some pair has one, a click on the button of
  another existing pair is rejected as \<open>TimerBusyError\<close> and leaves the state as it is.
\<close>

theorem single_active_timer:
  assumes idle: "active_timer st = None" "open_timers st = []"
  shows "length (open_timers (toggles L st ops)) \<le> 1
    \<and> (p \<in> set (open_timers (toggles L st ops)) \<and> p \<noteq> (ri, di)
         \<and> get_day (toggles L st ops) ri di = Inr dd
       \<longrightarrow> toggle_timer L (toggles L st ops) ri di today now
             = (Some TimerBusyError, toggles L st ops))"
proof -
  define st' where "st' = toggles L st ops"
  have inv: "timer_inv st'"
    unfolding st'_def using idle(2) by (intro toggles_inv idle_inv)
  have mem: "active_timer st' = Some q" if "q \<in> set (open_timers st')" for q
  proof -
    obtain qr qd where q: "q = (qr, qd)" by (cases q)
    from that have "(qr, qd) \<in> set (open_timers st')" by (simp add: q)
    then obtain d where "get_day st' qr qd = Inr d" "running_start d \<noteq> None"
      unfolding open_timers_iff by blast
    then show ?thesis using inv unfolding timer_inv_def q by blast
  qed
  have one: "length (open_timers st') \<le> 1"
  proof (cases "open_timers st'")
    case Nil
    then show ?thesis by simp
  next
    case (Cons a as)
    have "x = a" if "x \<in> set (open_timers st')" for x
      using mem [OF that] mem [of a] Cons by simp
    then show ?thesis by (intro at_most_one [of _ a] distinct_open_timers)
  qed
  have busy: "toggle_timer L st' ri di today now = (Some TimerBusyError, st')"
    if "p \<in> set (open_timers st')" "p \<noteq> (ri, di)" "get_day st' ri di = Inr dd"
    using that(2,3) mem [OF that(1)] by (auto simp: toggle_timer_def)
  show ?thesis using one busy unfolding st'_def by blast
qed

theorem single_active_timer_witness:
  "active_timer scenario_app = None \<and> open_timers scenario_app = []
   \<and> open_timers (toggles scenario_lib scenario_app [(0, 0, t0900, t0900)]) = [(0, 0)]
   \<and> length (open_timers (toggles scenario_lib scenario_app [(0, 0, t0900, t0900)])) \<le> 1
   \<and> toggle_timer scenario_lib (toggles scenario_lib scenario_app [(0, 0, t0900, t0900)])
        0 1 t0930 t0930
       = (Some TimerBusyError, toggles scenario_lib scenario_app [(0, 0, t0900, t0900)])"
proof -
  have a: "active_timer scenario_app = None" by code_simp
  have b: "open_timers scenario_app = []" by code_simp
  have c: "open_timers (toggles scenario_lib scenario_app [(0, 0, t0900, t0900)]) = [(0, 0)]"
    by code_simp
  have d: "get_day (toggles scenario_lib scenario_app [(0, 0, t0900, t0900)]) 0 1
             = Inr DayData_new"
    by code_simp
  show ?thesis
    using a b c d
      single_active_timer [OF a b, of scenario_lib "[(0, 0, t0900, t0900)]" "(0, 0)" 0 1
        DayData_new t0930 t0930]
    by simp
qed

section \<open>The timer: start and stop\<close>

text \<open>
  C8. Today-only start. In the Idle state, a click on the button of an existing
  (entry, weekday) pair starts the timer if and only if the weekday is the weekday of
  the day on which the clock is read; otherwise it is rejected as \<open>WrongDayError\<close> and
  the state is as before. A successful start sets \<^verbatim>\<open>running_start\<close> of that day to the
  reading of \<^verbatim>\<open>datetime.now()\<close> and makes the pair the active timer.
\<close>

theorem today_only_start:
  assumes "active_timer st = None" "get_day st ri di = Inr dd"
  shows "(fst (toggle_timer L st ri di today now) = None \<longleftrightarrow> di = weekday today)
    \<and> (di \<noteq> weekday today
         \<longrightarrow> toggle_timer L st ri di today now = (Some WrongDayError, st))
    \<and> (di = weekday today
         \<longrightarrow> get_day (snd (toggle_timer L st ri di today now)) ri di
               = Inr (dd\<lparr>running_start := Some now\<rparr>)
             \<and> active_timer (snd (toggle_timer L st ri di today now)) = Some (ri, di))"
proof (cases "di = weekday today")
  case True
  have t: "toggle_timer L st ri di today now
          = (None, (set_day st ri di (dd\<lparr>running_start := Some now\<rparr>))
                     \<lparr>active_timer := Some (ri, di)\<rparr>)"
    using assms True by (simp add: toggle_timer_def)
  have g: "get_day (snd (toggle_timer L st ri di today now)) ri di
             = Inr (dd\<lparr>running_start := Some now\<rparr>)"
    unfolding t by (simp add: get_day_set_day [OF assms(2)])
  have a: "active_timer (snd (toggle_timer L st ri di today now)) = Some (ri, di)"
    unfolding t by simp
  have f: "fst (toggle_timer L st ri di today now) = None"
    unfolding t by simp
  show ?thesis using True g a f by blast
next
  case False
  have "toggle_timer L st ri di today now = (Some WrongDayError, st)"
    using assms False by (simp add: toggle_timer_def)
  then show ?thesis using False by simp
qed

theorem today_only_start_witness:
  "active_timer scenario_app = None \<and> get_day scenario_app 0 0 = Inr DayData_new
   \<and> get_day scenario_app 0 4 = Inr DayData_new
   \<and> weekday t0900 = 0
   \<and> fst (toggle_timer scenario_lib scenario_app 0 0 t0900 t0900) = None
   \<and> toggle_timer scenario_lib scenario_app 0 4 t0900 t0900 = (Some WrongDayError, scenario_app)"
proof -
  have a: "active_timer scenario_app = None" by code_simp
  have g0: "get_day scenario_app 0 0 = Inr DayData_new" by code_simp
  have g4: "get_day scenario_app 0 4 = Inr DayData_new" by code_simp
  have w: "weekday t0900 = 0" by code_simp
  show ?thesis
    using a g0 g4 w today_only_start [OF a g0, of scenario_lib t0900 t0900]
      today_only_start [OF a g4, of scenario_lib t0900 t0900]
    by simp
qed

text \<open>
  C2. Continuity at stop. Let a day have a timer started at \<open>t0\<close> and a list of
  sessions, and let the library read back the two ISO strings it writes for \<open>t0\<close> and
  \<open>t1\<close>. After \<^verbatim>\<open>_stop_timer\<close> at \<open>t1\<close> the day has no open timer, its sessions are the
  old ones followed by \<open>(t0, t1)\<close>, and its total hours, by the formula for closed
  sessions, are the total hours of the day before the stop, by the formula for the open
  timer at the instant \<open>t1\<close>. The two sides are equal as results of the same floating-point
  operations in the same order, so no tolerance is needed; they are the same exception
  when an older session of the day does not parse.
\<close>

theorem continuity_at_stop:
  assumes "get_day st ri di = Inr dd" "running_start dd = Some t0" "sessions dd = PList xs"
    "fromisoformat L (isoformat L t0) = Some t0" "fromisoformat L (isoformat L t1) = Some t1"
  shows "\<exists>dd'. get_day (snd (stop_timer L st ri di t1)) ri di = Inr dd'
           \<and> running_start dd' = None
           \<and> sessions dd' = PList (xs @ [PTuple [PStr (isoformat L t0), PStr (isoformat L t1)]])
           \<and> DayData_total_hours L t1 dd' = DayData_total_hours L t1 dd"
proof (intro exI conjI)
  show "get_day (snd (stop_timer L st ri di t1)) ri di = Inr (close_session L dd t1)"
    using assms(1-3) by (rule get_day_after_stop)
  show "running_start (close_session L dd t1) = None"
    using assms(2,3) by (simp add: close_session_def)
  show "sessions (close_session L dd t1)
          = PList (xs @ [PTuple [PStr (isoformat L t0), PStr (isoformat L t1)]])"
    using assms(2,3) by (simp add: close_session_def)
  show "DayData_total_hours L t1 (close_session L dd t1) = DayData_total_hours L t1 dd"
    using assms(2-5) by (rule total_hours_close_session)
qed

theorem continuity_at_stop_witness:
  "get_day running_app 0 0
     = Inr \<lparr>sessions = PList [], notes_field = PStr [], running_start = Some t0900\<rparr>
   \<and> fromisoformat scenario_lib (isoformat scenario_lib t0900) = Some t0900
   \<and> fromisoformat scenario_lib (isoformat scenario_lib t1015) = Some t1015
   \<and> DayData_total_hours scenario_lib t1015
        \<lparr>sessions = PList [], notes_field = PStr [], running_start = Some t0900\<rparr> = Inr (5 / 4)
   \<and> DayData_total_hours scenario_lib t1015
        \<lparr>sessions = PList [PTuple [PStr ''2024-06-03T09:00:00'', PStr ''2024-06-03T10:15:00'']],
         notes_field = PStr [], running_start = None\<rparr> = Inr (5 / 4)"
proof -
  have g: "get_day running_app 0 0
     = Inr \<lparr>sessions = PList [], notes_field = PStr [], running_start = Some t0900\<rparr>"
    by code_simp
  have i0: "fromisoformat scenario_lib (isoformat scenario_lib t0900) = Some t0900"
    by code_simp
  have i1: "fromisoformat scenario_lib (isoformat scenario_lib t1015) = Some t1015"
    by code_simp
  have h: "DayData_total_hours scenario_lib t1015
        \<lparr>sessions = PList [], notes_field = PStr [], running_start = Some t0900\<rparr> = Inr (5 / 4)"
    by code_simp
  have s: "get_day (snd (stop_timer scenario_lib running_app 0 0 t1015)) 0 0
     = Inr \<lparr>sessions = PList [PTuple [PStr ''2024-06-03T09:00:00'',
                                       PStr ''2024-06-03T10:15:00'']],
            notes_field = PStr [], running_start = None\<rparr>"
    by code_simp
  obtain dd' where
    1: "get_day (snd (stop_timer scenario_lib running_app 0 0 t1015)) 0 0 = Inr dd'" and
    2: "DayData_total_hours scenario_lib t1015 dd'
          = DayData_total_hours scenario_lib t1015
              \<lparr>sessions = PList [], notes_field = PStr [], running_start = Some t0900\<rparr>"
    using continuity_at_stop [OF g _ _ i0 i1, of "[]"] by auto
  from 1 s have "dd' = \<lparr>sessions = PList [PTuple [PStr ''2024-06-03T09:00:00'',
                                                  PStr ''2024-06-03T10:15:00'']],
                       notes_field = PStr [], running_start = None\<rparr>"
    by simp
  then show ?thesis using g i0 i1 h 2 by simp
qed

text \<open>
  C3, as the program has it. \<^verbatim>\<open>_stop_timer\<close> does not compare the instant of the stop
  with \<^verbatim>\<open>running_start\<close> and rejects none: for a day with an open timer and a list of
  sessions, a stop at any instant, also one that is not after \<^verbatim>\<open>running_start\<close>, appends
  the session from \<^verbatim>\<open>running_start\<close> to that instant and clears \<^verbatim>\<open>running_start\<close>.
\<close>

theorem stop_accepts_any_instant:
  assumes "get_day st ri di = Inr dd" "running_start dd = Some t0" "sessions dd = PList xs"
  shows "get_day (snd (stop_timer L st ri di t1)) ri di
           = Inr (dd\<lparr>sessions := PList (xs @ [PTuple [PStr (isoformat L t0),
                                                        PStr (isoformat L t1)]]),
                     running_start := None\<rparr>)"
  using get_day_after_stop [OF assms] assms(2,3) by (simp add: close_session_def)

theorem stop_accepts_any_instant_witness:
  "t0900 \<le> t1015
   \<and> get_day late_app 0 0
       = Inr \<lparr>sessions = PList [], notes_field = PStr [], running_start = Some t1015\<rparr>
   \<and> get_day (snd (stop_timer scenario_lib late_app 0 0 t0900)) 0 0
       = Inr \<lparr>sessions = PList [PTuple [PStr (isoformat scenario_lib t1015),
                                         PStr (isoformat scenario_lib t0900)]],
              notes_field = PStr [], running_start = None\<rparr>"
proof -
  have g: "get_day late_app 0 0
       = Inr \<lparr>sessions = PList [], notes_field = PStr [], running_start = Some t1015\<rparr>"
    by code_simp
  have l: "t0900 \<le> t1015" by code_simp
  show ?thesis
    using g l stop_accepts_any_instant [OF g, of t1015 "[]" scenario_lib t0900] by simp
qed

text \<open>
  The claim C3 fails: the timer was started at 10:15 and the clock, moved back, reads
  09:00 at the stop. The stop is not rejected, the timer is cleared and a session that
  ends before it starts is recorded.
\<close>

theorem stop_backward_counterexample:
  "t0900 \<le> t1015
   \<and> get_day late_app 0 0
       = Inr \<lparr>sessions = PList [], notes_field = PStr [], running_start = Some t1015\<rparr>
   \<and> fst (stop_timer scenario_lib late_app 0 0 t0900) = None
   \<and> get_day (snd (stop_timer scenario_lib late_app 0 0 t0900)) 0 0
       = Inr \<lparr>sessions = PList [PTuple [PStr ''2024-06-03T10:15:00'',
                                         PStr ''2024-06-03T09:00:00'']],
              notes_field = PStr [], running_start = None\<rparr>"
  by code_simp

text \<open>
  C4, as the program has it. \<^verbatim>\<open>_stop_timer\<close> has no rejection for the Idle state (and
  \<^verbatim>\<open>_toggle_timer\<close> calls it only for the active timer). Called in the Idle state for an
  existing day, it leaves the store in memory, with all sessions and \<^verbatim>\<open>running_start\<close>
  fields, and the active-timer reference (none) as they are; unless the hours of the day
  raise an exception, it goes on to overwrite the data file with the store in memory
  and to draw the table.
\<close>

theorem stop_when_idle:
  assumes "active_timer st = None" "open_timers st = []" "get_day st ri di = Inr dd"
  shows "data_store (snd (stop_timer L st ri di now)) = data_store st
    \<and> active_timer (snd (stop_timer L st ri di now)) = None
    \<and> cur_key (snd (stop_timer L st ri di now)) = cur_key st
    \<and> stop_timer L st ri di now
        = (case DayData_total_hours L now dd of
             Inl e \<Rightarrow> (Some e, st)
           | Inr h \<Rightarrow>
               (case build_table L now (rows st) of Inl e \<Rightarrow> Some e | Inr t \<Rightarrow> None,
                st\<lparr>active_timer := None,
                    data_file := Content (json_dump (store_to_dict (data_store st)))\<rparr>))"
proof -
  have r: "running_start dd = None"
  proof (rule ccontr)
    assume "running_start dd \<noteq> None"
    then have "(ri, di) \<in> set (open_timers st)"
      using assms(3) unfolding open_timers_iff by blast
    then show False using assms(2) by simp
  qed
  show ?thesis
    using assms(1)
    by (simp add: stop_timer_idle_day [OF assms(3) r] save_data_def split: sum.splits)
qed

theorem stop_when_idle_witness:
  "active_timer idle_app = None \<and> open_timers idle_app = []
   \<and> get_day idle_app 0 0 = Inr DayData_new
   \<and> data_store (snd (stop_timer scenario_lib idle_app 0 0 t0900)) = data_store idle_app
   \<and> active_timer (snd (stop_timer scenario_lib idle_app 0 0 t0900)) = None"
proof -
  have a: "active_timer idle_app = None" by code_simp
  have b: "open_timers idle_app = []" by code_simp
  have c: "get_day idle_app 0 0 = Inr DayData_new" by code_simp
  have "data_store (snd (stop_timer scenario_lib idle_app 0 0 t0900)) = data_store idle_app
      \<and> active_timer (snd (stop_timer scenario_lib idle_app 0 0 t0900)) = None"
    using stop_when_idle [OF a b c, of scenario_lib t0900] by blast
  then show ?thesis using a b c by simp
qed

text \<open>
  The claim C4 fails: in an Idle state \<^verbatim>\<open>_stop_timer\<close> ends without any error, and the
  data file is not what it was (it now holds the key of B as well).
\<close>

theorem stop_when_idle_counterexample:
  "active_timer idle_app = None \<and> open_timers idle_app = []
   \<and> fst (stop_timer scenario_lib idle_app 0 0 t0900) = None
   \<and> data_file (snd (stop_timer scenario_lib idle_app 0 0 t0900)) \<noteq> data_file idle_app"
  by code_simp

section \<open>Totals\<close>

text \<open>
  C7. Aggregation additivity, at one reading \<open>now\<close> of the clock. For a sheet whose
  entries have seven days each, all of whose hours \<open>h d\<close> can be computed: the weekly
  total (of \<^verbatim>\<open>_add_total_row\<close> and of \<^verbatim>\<open>_update_week_total\<close>) is the \<^verbatim>\<open>sum\<close> over the entries
  of the total of each entry, the total of an entry is the \<^verbatim>\<open>sum\<close> of the hours of its
  days, and the daily total of a weekday is the \<^verbatim>\<open>sum\<close> over the entries of the hours of
  that weekday.
\<close>

theorem aggregation_additivity:
  assumes "\<forall>r \<in> set rs. length (days r) = 7
             \<and> (\<forall>d \<in> set (days r). DayData_total_hours L now d = Inr (h d))"
  shows "week_total L now rs = Inr (pysum L (map (\<lambda>r. pysum L (map h (days r))) rs))
    \<and> update_week_total L now rs = week_total L now rs
    \<and> (\<forall>r \<in> set rs. TaskRowData_total_hours L now r = Inr (pysum L (map h (days r))))
    \<and> (\<forall>di < 7. daily_total L now rs di = Inr (pysum L (map (\<lambda>r. h (days r ! di)) rs)))"
proof (intro conjI ballI allI impI)
  have row: "TaskRowData_total_hours L now r = Inr (pysum L (map h (days r)))"
    if "r \<in> set rs" for r
  proof -
    have "emap (DayData_total_hours L now) (days r) = Inr (map h (days r))"
      using assms that by (intro emap_all_Inr) blast
    then show ?thesis by (simp add: TaskRowData_total_hours_def)
  qed
  then show "TaskRowData_total_hours L now r = Inr (pysum L (map h (days r)))"
    if "r \<in> set rs" for r using that .
  have "emap (TaskRowData_total_hours L now) rs
          = Inr (map (\<lambda>r. pysum L (map h (days r))) rs)"
    using row by (intro emap_all_Inr) blast
  then show "week_total L now rs = Inr (pysum L (map (\<lambda>r. pysum L (map h (days r))) rs))"
    by (simp add: week_total_def)
  show "update_week_total L now rs = week_total L now rs"
    by (simp add: update_week_total_def)
  fix di :: nat
  assume di: "di < 7"
  have "cell_hours L now r di = Inr (h (days r ! di))" if "r \<in> set rs" for r
    using assms that di by (simp add: cell_hours_def py_index_def)
  then have "emap (\<lambda>r. cell_hours L now r di) rs = Inr (map (\<lambda>r. h (days r ! di)) rs)"
    by (intro emap_all_Inr) blast
  then show "daily_total L now rs di = Inr (pysum L (map (\<lambda>r. h (days r ! di)) rs))"
    by (simp add: daily_total_def)
qed

theorem aggregation_additivity_witness:
  "map (\<lambda>r. length (days r)) (rows stopped_app) = [7]
   \<and> map (\<lambda>r. map (DayData_total_hours scenario_lib t1015) (days r)) (rows stopped_app)
       = [[Inr (5 / 4), Inr 0, Inr 0, Inr 0, Inr 0, Inr 0, Inr 0]]
   \<and> week_total scenario_lib t1015 (rows stopped_app) = Inr (5 / 4)
   \<and> daily_total scenario_lib t1015 (rows stopped_app) 0 = Inr (5 / 4)
   \<and> daily_total scenario_lib t1015 (rows stopped_app) 1 = Inr 0"
proof -
  have h: "\<forall>r \<in> set (rows stopped_app). length (days r) = 7
       \<and> (\<forall>d \<in> set (days r). DayData_total_hours scenario_lib t1015 d = Inr (scenario_hours d))"
    by code_simp
  have e: "pysum scenario_lib (map (\<lambda>r. pysum scenario_lib (map scenario_hours (days r)))
             (rows stopped_app)) = 5 / 4"
    by code_simp
  have e0: "pysum scenario_lib (map (\<lambda>r. scenario_hours (days r ! 0)) (rows stopped_app)) = 5 / 4"
    by code_simp
  have e1: "pysum scenario_lib (map (\<lambda>r. scenario_hours (days r ! 1)) (rows stopped_app)) = 0"
    by code_simp
  have l: "map (\<lambda>r. length (days r)) (rows stopped_app) = [7]"
    by code_simp
  have t: "map (\<lambda>r. map (DayData_total_hours scenario_lib t1015) (days r)) (rows stopped_app)
       = [[Inr (5 / 4), Inr 0, Inr 0, Inr 0, Inr 0, Inr 0, Inr 0]]"
    by code_simp
  have "week_total scenario_lib t1015 (rows stopped_app) = Inr (5 / 4)
      \<and> daily_total scenario_lib t1015 (rows stopped_app) 0 = Inr (5 / 4)
      \<and> daily_total scenario_lib t1015 (rows stopped_app) 1 = Inr 0"
    using e e0 e1 aggregation_additivity [OF h] by simp
  then show ?thesis using l t by simp
qed

text \<open>
  The scenario of the specification: the timer of Monday runs from 09:00; at 09:30 the
  cell reads a half hour; stopped at 10:15, the cell and the weekly total read an hour and
  a quarter, and the day has the one session from 09:00 to 10:15.
\<close>

lemma spec_scenario:
  "cell_hours scenario_lib t0930 (rows running_app ! 0) 0 = Inr (1 / 2)
   \<and> cell_hours scenario_lib t1015 (rows stopped_app ! 0) 0 = Inr (5 / 4)
   \<and> week_total scenario_lib t1015 (rows stopped_app) = Inr (5 / 4)
   \<and> get_day stopped_app 0 0
       = Inr \<lparr>sessions = PList [PTuple [PStr ''2024-06-03T09:00:00'',
                                         PStr ''2024-06-03T10:15:00'']],
              notes_field = PStr [], running_start = None\<rparr>"
  by code_simp

end
